theory Spec2Isabelle
  imports Main
begin

section \<open>Python strings\<close>

text \<open>
  A Python \<open>str\<close> is modelled as an Isabelle \<open>string\<close>; a character stands for the code
  point of the same number (below 256). The classification functions follow Python's
  \<open>str.isspace\<close> and \<open>str.isidentifier\<close> on that range; case mapping (\<open>str.title\<close>)
  is given for ASCII letters only and leaves every other character as it is.
\<close>

definition isspace :: "char \<Rightarrow> bool" where
  "isspace c =
     (let n = (of_char c :: nat)
      in n = 32 \<or> (9 \<le> n \<and> n \<le> 13) \<or> (28 \<le> n \<and> n \<le> 31) \<or> n = 133 \<or> n = 160)"

definition is_ascii_upper :: "char \<Rightarrow> bool" where
  "is_ascii_upper c = (let n = (of_char c :: nat) in 65 \<le> n \<and> n \<le> 90)"

definition is_ascii_lower :: "char \<Rightarrow> bool" where
  "is_ascii_lower c = (let n = (of_char c :: nat) in 97 \<le> n \<and> n \<le> 122)"

definition is_ascii_digit :: "char \<Rightarrow> bool" where
  "is_ascii_digit c = (let n = (of_char c :: nat) in 48 \<le> n \<and> n \<le> 57)"

text \<open>\<open>XID_Start\<close> (plus the underscore Python adds) and \<open>XID_Continue\<close> below 256.\<close>

definition is_id_start :: "char \<Rightarrow> bool" where
  "is_id_start c =
     (let n = (of_char c :: nat)
      in is_ascii_upper c \<or> is_ascii_lower c \<or> c = CHR ''_'' \<or>
         n = 170 \<or> n = 181 \<or> n = 186 \<or>
         (192 \<le> n \<and> n \<le> 214) \<or> (216 \<le> n \<and> n \<le> 246) \<or> (248 \<le> n \<and> n \<le> 255))"

definition is_id_continue :: "char \<Rightarrow> bool" where
  "is_id_continue c = (is_id_start c \<or> is_ascii_digit c \<or> (of_char c :: nat) = 183)"

text \<open>\<open>s.isidentifier()\<close>\<close>

fun isidentifier :: "string \<Rightarrow> bool" where
  "isidentifier [] = False"
| "isidentifier (c # cs) = (is_id_start c \<and> list_all is_id_continue cs)"

text \<open>\<open>s.lstrip()\<close>, \<open>s.rstrip()\<close>, \<open>s.strip()\<close> with no argument.\<close>

definition lstrip :: "string \<Rightarrow> string" where
  "lstrip s = dropWhile isspace s"

definition rstrip :: "string \<Rightarrow> string" where
  "rstrip s = rev (dropWhile isspace (rev s))"

definition strip :: "string \<Rightarrow> string" where
  "strip s = rstrip (lstrip s)"

text \<open>\<open>s.split(sep)\<close> for a one-character separator: never the empty list.\<close>

fun split_on :: "char \<Rightarrow> string \<Rightarrow> string list" where
  "split_on sep [] = [[]]"
| "split_on sep (c # cs) =
     (if c = sep then [] # split_on sep cs
      else (case split_on sep cs of [] \<Rightarrow> [[c]] | l # ls \<Rightarrow> (c # l) # ls))"

text \<open>\<open>s.split(sep, 1)\<close>: one element when \<open>sep\<close> does not occur, two otherwise.\<close>

definition split1 :: "char \<Rightarrow> string \<Rightarrow> string list" where
  "split1 sep s =
     (if sep \<in> set s then [takeWhile (\<lambda>c. c \<noteq> sep) s, tl (dropWhile (\<lambda>c. c \<noteq> sep) s)]
      else [s])"

text \<open>\<open>s.partition(sep)\<close>, without the separator itself (the callers drop it).\<close>

definition partition_on :: "char \<Rightarrow> string \<Rightarrow> string \<times> string" where
  "partition_on sep s =
     (if sep \<in> set s then (takeWhile (\<lambda>c. c \<noteq> sep) s, tl (dropWhile (\<lambda>c. c \<noteq> sep) s))
      else (s, []))"

text \<open>\<open>sub in s\<close> on strings is the substring test; the empty string is in every string.\<close>

fun str_in :: "string \<Rightarrow> string \<Rightarrow> bool" where
  "str_in sub [] = (sub = [])"
| "str_in sub (c # cs) = (take (length sub) (c # cs) = sub \<or> str_in sub cs)"

definition startswith :: "string \<Rightarrow> string \<Rightarrow> bool" where
  "startswith s p = (take (length p) s = p)"

definition endswith :: "string \<Rightarrow> string \<Rightarrow> bool" where
  "endswith s p = (drop (length s - length p) s = p \<and> length p \<le> length s)"

text \<open>\<open>s.title()\<close>: a cased character is upper case after an uncased one and lower case
  after a cased one.\<close>

definition to_upper :: "char \<Rightarrow> char" where
  "to_upper c = (if is_ascii_lower c then char_of ((of_char c :: nat) - 32) else c)"

definition to_lower :: "char \<Rightarrow> char" where
  "to_lower c = (if is_ascii_upper c then char_of ((of_char c :: nat) + 32) else c)"

fun title_from :: "bool \<Rightarrow> string \<Rightarrow> string" where
  "title_from prev [] = []"
| "title_from prev (c # cs) =
     (if is_ascii_lower c then (if prev then c else to_upper c) # title_from True cs
      else if is_ascii_upper c then (if prev then to_lower c else c) # title_from True cs
      else c # title_from False cs)"

definition title :: "string \<Rightarrow> string" where
  "title s = title_from False s"

text \<open>\<open>sep.join(xs)\<close>\<close>

fun join_with :: "string \<Rightarrow> string list \<Rightarrow> string" where
  "join_with sep [] = []"
| "join_with sep [x] = x"
| "join_with sep (x # y # ys) = x @ sep @ join_with sep (y # ys)"

text \<open>Iterating over a text file yields its lines, each with its newline.\<close>

fun file_lines :: "string \<Rightarrow> string list" where
  "file_lines [] = []"
| "file_lines (c # cs) =
     (if c = CHR 0x0A then [c] # file_lines cs
      else (case file_lines cs of [] \<Rightarrow> [[c]] | l # ls \<Rightarrow> (c # l) # ls))"

section \<open>Exceptions\<close>

text \<open>
  The exceptions the program raises with a \<open>raise\<close> statement are the constructors of
  \<open>error\<close>, named after the failure each one reports; \<open>Uncaught\<close> carries an exception
  that the interpreter or a library call raises and that no handler of the program
  catches. \<open>exception_class\<close> gives the Python class of each.
\<close>

datatype py_exception =
    PyValueError | PyIndexError | PyKeyError | PyNameError | PyUnboundLocalError
  | PyOSError | PyFileNotFoundError | PyNotADirectoryError | PyRuntimeError

datatype invalid_input =
    CrossPipWithoutBuildPip   \<comment> \<open>\<open>ValueError("Cannot have cross-pip without build-pip")\<close>\<close>
  | NotAnExecutablePath       \<comment> \<open>\<open>ValueError("Expected a path to a Python executable. ...")\<close>\<close>
  | MustBeNameValue           \<comment> \<open>\<open>ValueError("Invalid variable %r. Must be in the form NAME=VALUE")\<close>\<close>
  | InvalidVariableName       \<comment> \<open>\<open>ValueError("Invalid variable name %r")\<close>\<close>

datatype error =
    NotFound                  \<comment> \<open>\<open>FileNotFoundError("%s does not exist")\<close>\<close>
  | InvalidInput invalid_input
  | BuildIncomplete           \<comment> \<open>\<open>IOError("Cannot read %s: Build the host Python first ")\<close>\<close>
  | ConfigNotFound            \<comment> \<open>\<open>FileNotFoundError("No _sysconfigdata*.py found in host lib")\<close>\<close>
  | CorruptInstallation       \<comment> \<open>\<open>ValueError("Malformed Python installation!")\<close>\<close>
  | MakefileNotFound          \<comment> \<open>\<open>FileNotFoundError("Cannot find Makefile")\<close>\<close>
  | VersionMismatch           \<comment> \<open>\<open>ValueError("Version mismatch: host=%s, build=%s")\<close>\<close>
  | ToolchainUnavailable      \<comment> \<open>\<open>RuntimeError("Cannot run cross-compiler! ...")\<close>\<close>
  | Uncaught py_exception

fun exception_class :: "error \<Rightarrow> py_exception" where
  "exception_class NotFound = PyFileNotFoundError"
| "exception_class (InvalidInput _) = PyValueError"
| "exception_class BuildIncomplete = PyOSError"
| "exception_class ConfigNotFound = PyFileNotFoundError"
| "exception_class CorruptInstallation = PyValueError"
| "exception_class MakefileNotFound = PyFileNotFoundError"
| "exception_class VersionMismatch = PyValueError"
| "exception_class ToolchainUnavailable = PyRuntimeError"
| "exception_class (Uncaught e) = e"

text \<open>\<open>xs[0]\<close> and \<open>xs[-1]\<close>: \<open>IndexError\<close> on an empty sequence.\<close>

definition index_first :: "'a list \<Rightarrow> py_exception + 'a" where
  "index_first xs = (case xs of [] \<Rightarrow> Inl PyIndexError | x # _ \<Rightarrow> Inr x)"

definition index_last :: "'a list \<Rightarrow> py_exception + 'a" where
  "index_last xs = (if xs = [] then Inl PyIndexError else Inr (last xs))"

text \<open>\<open>a, b = xs\<close>: \<open>ValueError\<close> unless \<open>xs\<close> has exactly two elements.\<close>

fun unpack2 :: "'a list \<Rightarrow> py_exception + ('a \<times> 'a)" where
  "unpack2 [a, b] = Inr (a, b)"
| "unpack2 _ = Inl PyValueError"

section \<open>\<open>parse_env_vars\<close>\<close>

type_synonym env_var_rule = "string \<times> string \<times> string"

text \<open>
  The body of the loop of \<open>parse_env_vars\<close>, for one \<open>spec\<close>. The \<open>try\<close> statement holds
  the split and the unpacking of its result; its only handler is for \<open>IndexError\<close>, and any
  other exception leaves the function. \<open>name[-1:]\<close> is the last character as a string, or
  the empty string; \<open>name[-1]\<close> raises \<open>IndexError\<close> on the empty string.
\<close>

definition parse_env_var :: "string \<Rightarrow> error + env_var_rule" where
  "parse_env_var spec0 =
     (let spec = lstrip spec0;
          assign = ''=''
      in case unpack2 (split1 CHR ''='' spec) of
           Inl e \<Rightarrow>
             (if e = PyIndexError then Inl (InvalidInput MustBeNameValue) else Inl (Uncaught e))
         | Inr (name, val) \<Rightarrow>
             (case (if str_in (drop (length name - 1) name) ''?+:''
                    then (case index_last name of
                            Inl e \<Rightarrow> Inl (Uncaught e)
                          | Inr c \<Rightarrow> Inr (butlast name, [c] @ ''=''))
                    else Inr (name, assign)) of
                Inl e \<Rightarrow> Inl e
              | Inr (name', assign') \<Rightarrow>
                  (if \<not> isidentifier name' then Inl (InvalidInput InvalidVariableName)
                   else Inr (name', assign', val))))"

fun parse_env_vars_loop :: "string list \<Rightarrow> env_var_rule list \<Rightarrow> error + env_var_rule list" where
  "parse_env_vars_loop [] parsed = Inr parsed"
| "parse_env_vars_loop (spec # rest) parsed =
     (case parse_env_var spec of
        Inl e \<Rightarrow> Inl e
      | Inr r \<Rightarrow> parse_env_vars_loop rest (parsed @ [r]))"

definition parse_env_vars :: "string list \<Rightarrow> error + env_var_rule list" where
  "parse_env_vars env_vars = parse_env_vars_loop env_vars []"

section \<open>Paths (\<open>posixpath\<close>)\<close>

text \<open>\<open>os.path.basename\<close>: what follows the last slash.\<close>

definition basename :: "string \<Rightarrow> string" where
  "basename p = rev (takeWhile (\<lambda>c. c \<noteq> CHR ''/'') (rev p))"

text \<open>\<open>os.path.dirname\<close>: what precedes the last slash, without its trailing slashes
  unless it consists of slashes only.\<close>

definition dirname :: "string \<Rightarrow> string" where
  "dirname p =
     (let head = rev (dropWhile (\<lambda>c. c \<noteq> CHR ''/'') (rev p))
      in if head \<noteq> [] \<and> \<not> list_all (\<lambda>c. c = CHR ''/'') head
         then rev (dropWhile (\<lambda>c. c = CHR ''/'') (rev head))
         else head)"

text \<open>\<open>os.path.join(a, b)\<close> and \<open>os.path.join(a, *bs)\<close>.\<close>

definition join2 :: "string \<Rightarrow> string \<Rightarrow> string" where
  "join2 a b =
     (if startswith b ''/'' then b
      else if a = [] \<or> endswith a ''/'' then a @ b
      else a @ ''/'' @ b)"

fun path_join :: "string \<Rightarrow> string list \<Rightarrow> string" where
  "path_join a [] = a"
| "path_join a (b # bs) = path_join (join2 a b) bs"

text \<open>\<open>os.path.splitext\<close>: the extension starts at the last dot of the base name, when
  a character other than a dot precedes that dot in the base name.\<close>

definition splitext :: "string \<Rightarrow> string \<times> string" where
  "splitext p =
     (let base = basename p;
          rest = dropWhile (\<lambda>c. c = CHR ''.'') base
      in if CHR ''.'' \<in> set rest
         then (let ext = CHR ''.'' # rev (takeWhile (\<lambda>c. c \<noteq> CHR ''.'') (rev p))
               in (take (length p - length ext) p, ext))
         else (p, []))"

section \<open>The environment the builder reads\<close>

text \<open>
  What the program observes of the interpreter it runs in, of the file system and of the
  processes it starts is a record of functions. \<open>set_order\<close> is the order in which a
  \<open>set\<close> built from the given paths is iterated, each path once; \<open>exec_module\<close> is the
  \<open>build_time_vars\<close> dictionary of the module a file defines, or the exception its
  loading raises; a dictionary is an association list with string values.
  \<open>caches_bytecode\<close> tells whether loading a source file writes its byte-code cache: the
  loader of a \<open>.py\<close> file does when the cache is missing or stale, can be written and
  \<open>sys.dont_write_bytecode\<close> is not set.
\<close>

type_synonym dict = "(string \<times> string) list"

datatype process_result =
    Output string                \<comment> \<open>exit status 0, the captured standard output\<close>
  | NonZeroExit                  \<comment> \<open>\<open>subprocess.CalledProcessError\<close>\<close>
  | CannotExecute py_exception   \<comment> \<open>the program could not be started (an \<open>OSError\<close>)\<close>

record world =
  config_VERSION :: string            \<comment> \<open>\<open>sysconfig.get_config_var('VERSION')\<close>\<close>
  config_py_version_short :: string   \<comment> \<open>\<open>sysconfig.get_config_var('py_version_short')\<close>\<close>
  sys_platform :: string
  platform_machine :: string
  abspath :: "string \<Rightarrow> string"
  path_exists :: "string \<Rightarrow> bool"
  path_isfile :: "string \<Rightarrow> bool"
  path_isdir :: "string \<Rightarrow> bool"
  is_python_source_dir :: "string \<Rightarrow> bool"
  read_text :: "string \<Rightarrow> string option"  \<comment> \<open>\<open>open(p).read()\<close>; \<open>None\<close> is an \<open>IOError\<close>\<close>
  glob :: "string \<Rightarrow> string list"
  set_order :: "string list \<Rightarrow> string list"
  exec_module :: "string \<Rightarrow> py_exception + dict"
  caches_bytecode :: "string \<Rightarrow> bool"
  cache_tag :: string                 \<comment> \<open>\<open>sys.implementation.cache_tag\<close>\<close>
  listdir :: "string \<Rightarrow> py_exception + string list"
  os_file :: string                   \<comment> \<open>\<open>os.__file__\<close>\<close>
  random_sentinel :: nat              \<comment> \<open>\<open>random.randint(0, 0xffffffff)\<close>\<close>
  shlex_split :: "string \<Rightarrow> py_exception + string list"
  check_output :: "string list \<Rightarrow> process_result"

text \<open>\<open>d[k]\<close> and \<open>d1 == d2\<close> on dictionaries.\<close>

definition dict_get :: "dict \<Rightarrow> string \<Rightarrow> py_exception + string" where
  "dict_get d k = (case map_of d k of None \<Rightarrow> Inl PyKeyError | Some v \<Rightarrow> Inr v)"

definition dict_eq :: "dict \<Rightarrow> dict \<Rightarrow> bool" where
  "dict_eq a b = list_all (\<lambda>k. map_of a k = map_of b k) (map fst a @ map fst b)"

text \<open>The names bound at module level when a function of the module runs: the imports,
  \<open>__version__\<close>, \<open>logger\<close>, the class and the two functions.\<close>

definition module_globals :: "string list" where
  "module_globals =
     [''venv'', ''os'', ''sysconfig'', ''glob'', ''sys'', ''shutil'', ''dedent'',
      ''subprocess'', ''logging'', ''importlib'', ''types'', ''ConfigParser'', ''random'',
      ''shlex'', ''platform'', ''F'', ''utils'', ''__version__'', ''logger'',
      ''CrossEnvBuilder'', ''parse_env_vars'', ''main'']"

section \<open>Target discovery\<close>

text \<open>\<open>CrossEnvBuilder.find_installed_host_home\<close>\<close>

fun pyvenv_home :: "string list \<Rightarrow> string option" where
  "pyvenv_home [] = None"
| "pyvenv_home (line # rest) =
     (let (key, val) = partition_on CHR ''='' line
      in if strip key = ''home'' then Some (dirname (strip val)) else pyvenv_home rest)"

definition find_installed_host_home :: "world \<Rightarrow> string \<Rightarrow> error + string" where
  "find_installed_host_home w host_project_base =
     (let home = dirname host_project_base;
          pyvenv = path_join home [''pyvenv.cfg'']
      in if path_exists w pyvenv
         then (case read_text w pyvenv of
                 None \<Rightarrow> Inl (Uncaught PyOSError)
               | Some content \<Rightarrow>
                   (case pyvenv_home (file_lines content) of
                      Some h \<Rightarrow> Inr h
                    | None \<Rightarrow> Inr home))
         else Inr home)"

text \<open>
  \<open>CrossEnvBuilder.find_sysconfig_data\<close>. The candidates are the regular files among the
  matches whose extension is \<open>.py\<close> or \<open>.pyc\<close>, collected in a set; they are sorted
  (stably) by the length of what follows the first dot of the path, \<open>x.split('.',1)[1]\<close>.
  The loop keeps the first module it loads and compares every later one with it.

  \<open>spec.loader.exec_module\<close> does more than return the module: the loader that
  \<open>spec_from_file_location\<close> chooses for a path ending in \<open>.py\<close> caches the byte code it
  compiles, in the directory \<open>__pycache__\<close> beside the file, which it creates when missing
  (\<open>importlib.util.cache_from_source\<close> gives the path). So the functions of target
  discovery return, with their result, the paths they created or wrote, in order.
\<close>

record sysconfig_data =
  host_sysconfigdata :: dict
  host_sysconfigdata_file :: string
  host_sysconfigdata_name :: string

definition is_candidate :: "world \<Rightarrow> string \<Rightarrow> bool" where
  "is_candidate w filename =
     (path_isfile w filename \<and> snd (splitext filename) \<in> {''.py'', ''.pyc''})"

definition sort_len :: "string \<Rightarrow> nat" where
  "sort_len x = length (tl (dropWhile (\<lambda>c. c \<noteq> CHR ''.'') x))"

definition bytecode_path :: "world \<Rightarrow> string \<Rightarrow> string" where
  "bytecode_path w path =
     path_join (dirname path)
       [''__pycache__'', fst (splitext (basename path)) @ ''.'' @ cache_tag w @ ''.pyc'']"

definition import_writes :: "world \<Rightarrow> string \<Rightarrow> string list" where
  "import_writes w path =
     (if snd (splitext path) = ''.py'' \<and> caches_bytecode w path
      then (let cache_dir = path_join (dirname path) [''__pycache__'']
            in (if path_exists w cache_dir then [] else [cache_dir]) @ [bytecode_path w path])
      else [])"

fun load_candidates ::
  "world \<Rightarrow> string list \<Rightarrow> sysconfig_data option
   \<Rightarrow> (error + sysconfig_data option) \<times> string list" where
  "load_candidates w [] cur = (Inr cur, [])"
| "load_candidates w (path # rest) cur =
     (let name = fst (splitext (basename path));
          written = import_writes w path
      in case exec_module w path of
           Inl e \<Rightarrow> (Inl (Uncaught e), written)
         | Inr vars \<Rightarrow>
             (case cur of
                None \<Rightarrow>
                  apsnd (\<lambda>later. written @ later)
                    (load_candidates w rest
                       (Some \<lparr>host_sysconfigdata = vars, host_sysconfigdata_file = path,
                              host_sysconfigdata_name = name\<rparr>))
              | Some c \<Rightarrow>
                  (if \<not> dict_eq (host_sysconfigdata c) vars
                   then (Inl CorruptInstallation, written)
                   else apsnd (\<lambda>later. written @ later) (load_candidates w rest cur))))"

definition find_sysconfig_data ::
  "world \<Rightarrow> string list \<Rightarrow> (error + sysconfig_data) \<times> string list" where
  "find_sysconfig_data w paths =
     (let maybe = concat (map (\<lambda>path. glob w (path_join path [''_sysconfigdata*.py*''])) paths);
          sysconfig_paths = set_order w (filter (is_candidate w) maybe);
          sorted_paths = sort_key sort_len sysconfig_paths
      in case load_candidates w sorted_paths None of
           (Inl e, written) \<Rightarrow> (Inl e, written)
         | (Inr None, written) \<Rightarrow> (Inl ConfigNotFound, written)
         | (Inr (Some c), written) \<Rightarrow> (Inr c, written))"

text \<open>
  \<open>CrossEnvBuilder.find_host_python\<close>, in two parts: \<open>discover_host_python\<close> is the
  function up to the loop over the Makefile, \<open>find_host_python\<close> adds the sanity check
  that ends it. In the source tree case, the handler of the \<open>IOError\<close> builds its message
  from the name \<open>s\<close>, which the function does not assign: the name is looked up among the
  module's globals, and the lookup raises \<open>NameError\<close> when it is not there.
\<close>

record host_info =
  host_project_base :: string
  host_makefile :: string
  host_home :: string
  host_sysconfig :: sysconfig_data
  host_cc :: "string list"
  host_version :: string
  host_platform :: string

fun makefile_platform :: "string list \<Rightarrow> string \<Rightarrow> string" where
  "makefile_platform [] cur = cur"
| "makefile_platform (line0 # rest) cur =
     (let line = strip line0
      in if startswith line ''_PYTHON_HOST_PLATFORM=''
         then (let host_platform = last (split1 CHR ''='' line)
               in if host_platform \<noteq> [] then host_platform else cur)
         else makefile_platform rest cur)"

definition source_tree_paths :: "world \<Rightarrow> string \<Rightarrow> error + (string \<times> string \<times> string list)" where
  "source_tree_paths w base =
     (let makefile = path_join base [''Makefile''];
          pybuilddir = path_join base [''pybuilddir.txt'']
      in case read_text w pybuilddir of
           None \<Rightarrow>
             (if ''s'' \<in> set module_globals then Inl BuildIncomplete
              else Inl (Uncaught PyNameError))
         | Some content \<Rightarrow>
             (let build_dir = strip content
              in Inr (makefile, base, [path_join base [build_dir]])))"

definition installed_paths :: "world \<Rightarrow> string \<Rightarrow> error + (string \<times> string \<times> string list)" where
  "installed_paths w base =
     (case find_installed_host_home w base of
        Inl e \<Rightarrow> Inl e
      | Inr home \<Rightarrow>
          (let python_ver = ''python'' @ config_py_version_short w;
               libdir = path_join home [''lib'', python_ver];
               sysconfig_paths = [libdir, path_join libdir [''*'']];
               makefile = glob w (path_join libdir [''*'', ''Makefile''])
           in Inr (if makefile = [] then [] else hd makefile, home, sysconfig_paths)))"

definition discover_host_python ::
  "world \<Rightarrow> string \<Rightarrow> (error + host_info) \<times> string list" where
  "discover_host_python w host0 =
     (let host = abspath w host0
      in if \<not> path_exists w host then (Inl NotFound, [])
         else if \<not> path_isfile w host then (Inl (InvalidInput NotAnExecutablePath), [])
         else
           (let base = dirname host
            in case (if is_python_source_dir w base then source_tree_paths w base
                     else installed_paths w base) of
                 Inl e \<Rightarrow> (Inl e, [])
               | Inr (makefile, home, sysconfig_paths) \<Rightarrow>
                   (case find_sysconfig_data w sysconfig_paths of
                      (Inl e, written) \<Rightarrow> (Inl e, written)
                    | (Inr cfg, written) \<Rightarrow>
                        (case dict_get (host_sysconfigdata cfg) ''CC'' of
                           Inl e \<Rightarrow> Inl (Uncaught e)
                         | Inr cc \<Rightarrow>
                             (case shlex_split w cc of
                                Inl e \<Rightarrow> Inl (Uncaught e)
                              | Inr ccv \<Rightarrow>
                                  (case dict_get (host_sysconfigdata cfg) ''VERSION'' of
                                     Inl e \<Rightarrow> Inl (Uncaught e)
                                   | Inr ver \<Rightarrow>
                                       (if \<not> path_exists w makefile then Inl MakefileNotFound
                                        else (case read_text w makefile of
                                                None \<Rightarrow> Inl (Uncaught PyOSError)
                                              | Some content \<Rightarrow>
                                                  Inr \<lparr>host_project_base = base,
                                                       host_makefile = makefile,
                                                       host_home = home,
                                                       host_sysconfig = cfg,
                                                       host_cc = ccv,
                                                       host_version = ver,
                                                       host_platform =
                                                         makefile_platform (file_lines content)
                                                           (sys_platform w)\<rparr>)))),
                         written))))"

definition find_host_python ::
  "world \<Rightarrow> string \<Rightarrow> (error + host_info) \<times> string list" where
  "find_host_python w host =
     (let build_version = config_VERSION w
      in case discover_host_python w host of
           (Inl e, written) \<Rightarrow> (Inl e, written)
         | (Inr h, written) \<Rightarrow>
             (if host_version h \<noteq> build_version then (Inl VersionMismatch, written)
              else (Inr h, written)))"

section \<open>Compiler probe\<close>

text \<open>
  \<open>CrossEnvBuilder.find_compiler_info\<close>. The nested \<open>run_compiler\<close> returns \<open>None\<close> for a
  \<open>CalledProcessError\<close> and has no handler for anything else. The result is the sysroot:
  the one given, or the stripped output of \<open>-print-sysroot\<close>.
\<close>

definition run_compiler :: "world \<Rightarrow> string list \<Rightarrow> string \<Rightarrow> error + string option" where
  "run_compiler w cc arg =
     (case check_output w (cc @ [arg]) of
        Output out \<Rightarrow> Inr (Some out)
      | NonZeroExit \<Rightarrow> Inr None
      | CannotExecute e \<Rightarrow> Inl (Uncaught e))"

definition find_compiler_info ::
  "world \<Rightarrow> string list \<Rightarrow> string option \<Rightarrow> error + string option" where
  "find_compiler_info w cc sysroot =
     (case run_compiler w cc ''--version'' of
        Inl e \<Rightarrow> Inl e
      | Inr None \<Rightarrow> Inl ToolchainUnavailable
      | Inr (Some _) \<Rightarrow>
          (if sysroot = None
           then (case run_compiler w cc ''-print-sysroot'' of
                   Inl e \<Rightarrow> Inl e
                 | Inr None \<Rightarrow> Inr None
                 | Inr (Some out) \<Rightarrow> Inr (Some (if out \<noteq> [] then strip out else out)))
           else Inr sysroot))"

section \<open>The builder\<close>

text \<open>
  The keyword arguments of \<open>CrossEnvBuilder\<close>. \<open>clear\<close> is a false value (\<open>None\<close>) or a
  string; \<open>cross_prefix\<close> and \<open>host_sysroot\<close> are \<open>None\<close> or a string.
\<close>

record builder_args =
  arg_host_python :: string
  arg_extra_env_vars :: "env_var_rule list"
  arg_build_system_site_packages :: bool
  arg_clear :: "string option"
  arg_cross_prefix :: "string option"
  arg_with_cross_pip :: bool
  arg_with_build_pip :: bool
  arg_host_sysroot :: "string option"

record builder =
  host :: host_info
  host_sysroot :: "string option"
  build_system_site_packages :: bool
  extra_env_vars :: "env_var_rule list"
  clear_build :: bool
  clear_cross :: bool
  with_cross_pip :: bool
  with_build_pip :: bool
  cross_prefix :: "string option"

text \<open>The truth value of an optional string: \<open>None\<close> and the empty string are false.\<close>

definition truthy :: "string option \<Rightarrow> bool" where
  "truthy v = (case v of None \<Rightarrow> False | Some s \<Rightarrow> s \<noteq> [])"

text \<open>\<open>CrossEnvBuilder.__init__\<close>: target discovery, then the compiler probe, then the
  check of the two pip flags, then the clear flags and the prefix. The second component
  is what target discovery wrote.\<close>

definition init :: "world \<Rightarrow> builder_args \<Rightarrow> (error + builder) \<times> string list" where
  "init w a =
     (case find_host_python w (arg_host_python a) of
        (Inl e, written) \<Rightarrow> (Inl e, written)
      | (Inr h, written) \<Rightarrow>
          (case find_compiler_info w (host_cc h) (arg_host_sysroot a) of
             Inl e \<Rightarrow> Inl e
           | Inr sysroot \<Rightarrow>
               (if arg_with_cross_pip a \<and> \<not> arg_with_build_pip a
                then Inl (InvalidInput CrossPipWithoutBuildPip)
                else Inr \<lparr>host = h,
                          host_sysroot = sysroot,
                          build_system_site_packages = arg_build_system_site_packages a,
                          extra_env_vars = arg_extra_env_vars a,
                          clear_build =
                            (arg_clear a \<in> {Some ''default'', Some ''build'', Some ''both''}),
                          clear_cross =
                            (if truthy (arg_cross_prefix a)
                             then arg_clear a \<in> {Some ''cross'', Some ''both''}
                             else arg_clear a \<in> {Some ''default'', Some ''cross'', Some ''both''}),
                          with_cross_pip = arg_with_cross_pip a,
                          with_build_pip = arg_with_build_pip a,
                          cross_prefix =
                            (if truthy (arg_cross_prefix a)
                             then map_option (abspath w) (arg_cross_prefix a)
                             else None)\<rparr>),
           written))"

section \<open>Environment directories\<close>

text \<open>
  What \<open>ensure_directories\<close> and \<open>create_configuration\<close> change is the content of the
  environment directory: what is at its path is nothing, a file, or a directory with its
  entries by name.
\<close>

datatype node = File string | Dir "(string \<times> node) list"

text \<open>Modelled from the spec: \<open>utils.remove_path\<close>, a function of the module
  \<open>crossenv.utils\<close>, which is not among the sources. It removes what is at the path,
  whatever it is: the entry of that name leaves its directory.\<close>

definition remove_path :: "string \<Rightarrow> (string \<times> node) list \<Rightarrow> (string \<times> node) list" where
  "remove_path sub entries = filter (\<lambda>(n, _). n \<noteq> sub) entries"

text \<open>Modelled from the spec: \<open>utils.mkdir_if_needed\<close>, of the same module. It adds an
  empty directory when no entry has the name.\<close>

definition mkdir_if_needed :: "string \<Rightarrow> (string \<times> node) list \<Rightarrow> (string \<times> node) list" where
  "mkdir_if_needed name entries =
     (if name \<in> set (map fst entries) then entries else entries @ [(name, Dir [])])"

text \<open>Modelled from the spec: \<open>utils.overwrite_file\<close>, of the same module. The file of that
  name has the content written, whether or not there was one.\<close>

definition overwrite_file ::
  "string \<Rightarrow> string \<Rightarrow> (string \<times> node) list \<Rightarrow> (string \<times> node) list" where
  "overwrite_file name content entries = remove_path name entries @ [(name, File content)]"

text \<open>
  The \<open>ensure_directories\<close> of \<open>venv.EnvBuilder\<close>, called with \<open>clear=False\<close>, is not
  a function of the module: it is a parameter, which returns the directory as it leaves
  it, with the exception it raised if any.
\<close>

record services =
  venv_ensure_directories :: "node option \<Rightarrow> error option \<times> node option"

text \<open>The loop of \<open>ensure_directories\<close> over \<open>os.listdir(env_dir)\<close>.\<close>

fun clear_entries :: "string list \<Rightarrow> (string \<times> node) list \<Rightarrow> (string \<times> node) list" where
  "clear_entries [] entries = entries"
| "clear_entries (sub # subdirs) entries =
     (if sub \<in> {''cross'', ''build''} then clear_entries subdirs entries
      else clear_entries subdirs (remove_path sub entries))"

text \<open>The first statement of \<open>ensure_directories\<close>: the guarded loop. \<open>os.listdir\<close> raises
  \<open>NotADirectoryError\<close> when the path is a file.\<close>

definition clear_env_dir :: "builder \<Rightarrow> node option \<Rightarrow> error + node option" where
  "clear_env_dir b at_env_dir =
     (case at_env_dir of
        None \<Rightarrow> Inr None
      | Some n \<Rightarrow>
          (if clear_cross b \<or> clear_build b
           then (case n of
                   File _ \<Rightarrow> Inl (Uncaught PyNotADirectoryError)
                 | Dir entries \<Rightarrow> Inr (Some (Dir (clear_entries (map fst entries) entries))))
           else Inr (Some n)))"

text \<open>\<open>CrossEnvBuilder.ensure_directories\<close>\<close>

definition ensure_directories ::
  "services \<Rightarrow> builder \<Rightarrow> node option \<Rightarrow> error option \<times> node option" where
  "ensure_directories sv b at_env_dir =
     (case clear_env_dir b at_env_dir of
        Inl e \<Rightarrow> (Some e, at_env_dir)
      | Inr cleared \<Rightarrow>
          (case venv_ensure_directories sv cleared of
             (Some e, n) \<Rightarrow> (Some e, n)
           | (None, Some (Dir entries)) \<Rightarrow> (None, Some (Dir (mkdir_if_needed ''lib'' entries)))
           | (None, n) \<Rightarrow> (Some (Uncaught PyOSError), n)))"

text \<open>
  \<open>CrossEnvBuilder.create_configuration\<close>: the \<open>uname\<close> section, in the order of the
  dictionary. In the first branch \<open>machine\<close> is not assigned, and building the dictionary
  raises \<open>UnboundLocalError\<close>.
\<close>

definition uname_section :: "world \<Rightarrow> builder \<Rightarrow> error + dict" where
  "uname_section w b =
     (let host_info = split_on CHR ''-'' (host_platform (host b))
      in case (if host_info = [] then Inr (sys_platform w, None)
               else if length host_info = 1
               then (case index_first (sys_platform w) of
                       Inl e \<Rightarrow> Inl (Uncaught e)
                     | Inr c \<Rightarrow> Inr ([c], Some (platform_machine w)))
               else (case index_first (sys_platform w) of
                       Inl e \<Rightarrow> Inl (Uncaught e)
                     | Inr c \<Rightarrow>
                         (case index_last (sys_platform w) of
                            Inl e \<Rightarrow> Inl (Uncaught e)
                          | Inr l \<Rightarrow> Inr ([c], Some [l])))) of
           Inl e \<Rightarrow> Inl e
         | Inr (sysname, None) \<Rightarrow> Inl (Uncaught PyUnboundLocalError)
         | Inr (sysname, Some machine) \<Rightarrow>
             Inr [(''sysname'', title sysname),
                  (''nodename'', ''build''),
                  (''release'', []),
                  (''version'', []),
                  (''machine'', machine)])"

text \<open>\<open>ConfigParser.write\<close> of one section: its header, a line \<open>key = value\<close> for each
  option, and an empty line.\<close>

definition write_section :: "string \<Rightarrow> dict \<Rightarrow> string" where
  "write_section name items =
     ''['' @ name @ '']'' @ [CHR 0x0A] @
     concat (map (\<lambda>(k, v). k @ '' = '' @ v @ [CHR 0x0A]) items) @ [CHR 0x0A]"

definition create_configuration ::
  "world \<Rightarrow> builder \<Rightarrow> node option \<Rightarrow> error option \<times> node option" where
  "create_configuration w b at_env_dir =
     (case uname_section w b of
        Inl e \<Rightarrow> (Some e, at_env_dir)
      | Inr uname \<Rightarrow>
          (case at_env_dir of
             Some (Dir entries) \<Rightarrow>
               (None, Some (Dir (overwrite_file ''crossenv.cfg'' (write_section ''uname'' uname) entries)))
           | _ \<Rightarrow> (Some (Uncaught PyOSError), at_env_dir)))"

section \<open>The cross environment\<close>

text \<open>
  The fields of the context object that \<open>make_cross_python\<close> reads, set by the \<open>venv\<close>
  module, \<open>ensure_directories\<close> and \<open>make_build_python\<close>, and those it sets.
\<close>

record venv_context =
  env_dir :: string
  python_exe :: string
  lib_path :: string
  build_pip_reqs :: "string list"
  cross_env_dir :: string
  cross_bin_path :: string
  cross_env_exe :: string
  cross_cfg_path :: string
  cross_activate :: string
  sentinel :: nat

text \<open>
  \<open>make_cross_python\<close> works through functions outside the module: the \<open>create\<close> of a
  \<open>venv.EnvBuilder\<close>, functions of \<open>crossenv.utils\<close>, \<open>shutil.copy\<close> and a subprocess. It is
  modelled by the calls it makes to them, in order, with their arguments. The last
  argument of \<open>utils.install_script\<close> is \<open>locals()\<close>: of the local variables, the record
  keeps \<open>self\<close>, \<open>context\<close> and those the function computes for the templates.
\<close>

record script_locals =
  local_self :: builder
  local_context :: venv_context
  sysconfig_name :: string
  stdlib :: string
  extra_envs :: "env_var_rule list"

datatype call =
    VenvCreate string bool
      \<comment> \<open>\<open>venv.EnvBuilder(system_site_packages=False, clear=c, symlinks=True, upgrade=False,
          with_pip=False).create(d)\<close>, as \<open>VenvCreate d c\<close>\<close>
  | RemovePath string                        \<comment> \<open>\<open>utils.remove_path(p)\<close>\<close>
  | OverwriteFile string string              \<comment> \<open>\<open>utils.overwrite_file(p)\<close>, and what is written\<close>
  | InstallScript string string script_locals
      \<comment> \<open>\<open>utils.install_script(template, destination, locals())\<close>\<close>
  | Symlink string string                    \<comment> \<open>\<open>utils.symlink(target, link)\<close>\<close>
  | CopyFile string string                   \<comment> \<open>\<open>shutil.copy(source, destination)\<close>\<close>
  | CheckOutput "string list"                \<comment> \<open>\<open>subprocess.check_output(args)\<close>\<close>

text \<open>
  A step of the function is a call, or an exception raised by what it reads in between.
  Running the steps makes the calls in order, up to the first step that raises; a call
  raises when the parameter \<open>call_error\<close> says so.
\<close>

datatype step = Do call | Raise error

fun perform :: "(call \<Rightarrow> error option) \<Rightarrow> step list \<Rightarrow> error option \<times> call list" where
  "perform call_error [] = (None, [])"
| "perform call_error (Raise e # rest) = (Some e, [])"
| "perform call_error (Do c # rest) =
     (case call_error c of
        Some e \<Rightarrow> (Some e, [c])
      | None \<Rightarrow> apsnd (\<lambda>later. c # later) (perform call_error rest))"

text \<open>\<open>s.split()\<close> with no argument: the words between runs of white space.\<close>

fun split_ws :: "string \<Rightarrow> string list" where
  "split_ws [] = []"
| "split_ws (c # cs) =
     (if isspace c then split_ws cs
      else (case cs of
              [] \<Rightarrow> [[c]]
            | d # _ \<Rightarrow>
                (if isspace d then [c] # split_ws cs
                 else (case split_ws cs of [] \<Rightarrow> [[c]] | l # ls \<Rightarrow> (c # l) # ls))))"

text \<open>The loop that rewrites \<open>pyvenv.cfg\<close>: the line of \<open>home\<close> is replaced.\<close>

definition rewrite_home :: "string \<Rightarrow> string \<Rightarrow> string" where
  "rewrite_home project_base content =
     concat (map (\<lambda>line. if take 2 (split_ws line) = [''home'', ''='']
                         then ''home = '' @ project_base @ [CHR 0x0A]
                         else line)
                 (file_lines content))"

text \<open>
  The part of \<open>make_cross_python\<close> that builds \<open>extra_envs\<close>: a copy of the rules of the
  builder, then the rules for the sysroot when there is one.
\<close>

definition make_cross_python_extra_envs :: "world \<Rightarrow> builder \<Rightarrow> env_var_rule list" where
  "make_cross_python_extra_envs w b =
     (let extra_envs = extra_env_vars b
      in case host_sysroot b of
           None \<Rightarrow> extra_envs
         | Some sysroot \<Rightarrow>
             (if sysroot = [] then extra_envs
              else (let libs = glob w (path_join sysroot [''usr'', ''lib*'']);
                        extra_envs1 =
                          (if libs = [] then extra_envs
                           else extra_envs @ [(''LIBRARY_PATH'', '':='', join_with '':'' libs)]);
                        inc = path_join sysroot [''usr'', ''include'']
                    in if \<not> path_isdir w inc then extra_envs1
                       else extra_envs1 @ [(''CPATH'', '':='', inc)])))"

text \<open>The context as \<open>make_cross_python\<close> leaves it.\<close>

definition cross_context :: "world \<Rightarrow> builder \<Rightarrow> venv_context \<Rightarrow> venv_context" where
  "cross_context w b ctx =
     (let dir = (case cross_prefix b of
                   None \<Rightarrow> path_join (env_dir ctx) [''cross'']
                 | Some prefix \<Rightarrow>
                     (if prefix = [] then path_join (env_dir ctx) [''cross''] else prefix));
          bin = path_join dir [''bin'']
      in ctx\<lparr>cross_env_dir := dir,
             cross_bin_path := bin,
             cross_env_exe := path_join bin [python_exe ctx],
             cross_cfg_path := path_join dir [''pyvenv.cfg''],
             cross_activate := path_join bin [''activate''],
             sentinel := random_sentinel w\<rparr>)"

text \<open>
  \<open>CrossEnvBuilder.make_cross_python\<close>: its steps, and the function itself, which
  returns the exception that ends it, if any, and the calls it made. The local
  \<open>clear_cross\<close> of the source is not used after its assignment.
\<close>

definition make_cross_python_steps :: "world \<Rightarrow> builder \<Rightarrow> venv_context \<Rightarrow> step list" where
  "make_cross_python_steps w b ctx0 =
     (let ctx = cross_context w b ctx0
      in Do (VenvCreate (cross_env_dir ctx) (clear_cross b)) #
         (case listdir w (cross_bin_path ctx) of
            Inl e \<Rightarrow> [Raise (Uncaught e)]
          | Inr exes \<Rightarrow>
              map (\<lambda>exe. Do (RemovePath (path_join (cross_bin_path ctx) [exe])))
                  (filter (\<lambda>exe. \<not> startswith exe ''activate'') exes) @
              (case read_text w (cross_cfg_path ctx) of
                 None \<Rightarrow> [Raise (Uncaught PyOSError)]
               | Some content \<Rightarrow>
                   (let locals =
                          \<lparr>local_self = b,
                           local_context = ctx,
                           sysconfig_name =
                             fst (splitext (basename (host_sysconfigdata_file (host_sysconfig (host b))))),
                           stdlib = abspath w (dirname (os_file w)),
                           extra_envs = make_cross_python_extra_envs w b\<rparr>
                    in Do (OverwriteFile (cross_cfg_path ctx)
                             (rewrite_home (host_project_base (host b)) content)) #
                       Do (InstallScript ''pywrapper.py.tmpl'' (cross_env_exe ctx) locals) #
                       map (\<lambda>exe. Do (Symlink (python_exe ctx) exe))
                           (filter (\<lambda>exe. \<not> path_exists w exe)
                              (map (\<lambda>exe. path_join (cross_bin_path ctx) [exe])
                                 [''python'', ''python3''])) @
                       [Do (InstallScript ''site.py.tmpl'' (path_join (lib_path ctx) [''site.py''])
                              locals),
                        Do (CopyFile (host_sysconfigdata_file (host_sysconfig (host b)))
                              (lib_path ctx))] @
                       (if with_cross_pip b
                        then [Do (CheckOutput
                                   ([cross_env_exe ctx, ''-m'', ''pip'',
                                     ''--disable-pip-version-check'', ''install'',
                                     ''--ignore-installed'',
                                     ''--prefix='' @ cross_env_dir ctx] @ build_pip_reqs ctx))]
                        else [])))))"

definition make_cross_python ::
  "world \<Rightarrow> (call \<Rightarrow> error option) \<Rightarrow> builder \<Rightarrow> venv_context
   \<Rightarrow> error option \<times> call list" where
  "make_cross_python w call_error b ctx = perform call_error (make_cross_python_steps w b ctx)"

text \<open>The launchers among the calls made: the destination and the local variables of every
  rendering of the template \<open>pywrapper.py.tmpl\<close>.\<close>

fun launchers :: "call list \<Rightarrow> (string \<times> script_locals) list" where
  "launchers [] = []"
| "launchers (InstallScript template destination locals # cs) =
     (if template = ''pywrapper.py.tmpl'' then (destination, locals) # launchers cs
      else launchers cs)"
| "launchers (c # cs) = launchers cs"

text \<open>The calls among steps, and whether all steps are calls.\<close>

fun calls :: "step list \<Rightarrow> call list" where
  "calls [] = []"
| "calls (Do c # rest) = c # calls rest"
| "calls (Raise e # rest) = calls rest"

fun is_call :: "step \<Rightarrow> bool" where
  "is_call (Do c) = True"
| "is_call (Raise e) = False"

section \<open>Concrete environments\<close>

text \<open>
  An installed target under \<open>/t\<close>, for a build interpreter of version 3.6 on Linux: the
  interpreter \<open>/t/bin/python3\<close>; the build configuration twice with the same content, as
  a compiled file in the library directory and as a source file in a platform directory
  below it, with no byte-code cache yet; the Makefile in the configuration directory; and
  the compiler \<open>arm-linux-gcc\<close>, which answers both queries. For \<open>make_cross_python\<close>, the
  environment directory is \<open>/env\<close>: the \<open>venv\<close> module has left two activation scripts and
  two interpreters in \<open>/env/cross/bin\<close> and a \<open>pyvenv.cfg\<close>, and \<open>/env/cross/bin/python3\<close>
  exists again once the launcher is installed there.
\<close>

definition target_vars :: dict where
  "target_vars = [(''CC'', ''arm-linux-gcc''), (''VERSION'', ''3.6'')]"

definition installed_target :: world where
  "installed_target =
     \<lparr>config_VERSION = ''3.6'',
      config_py_version_short = ''3.6'',
      sys_platform = ''linux'',
      platform_machine = ''x86_64'',
      abspath = (\<lambda>p. p),
      path_exists =
        (\<lambda>p. p \<in> {''/t/bin/python3'', ''/t/lib/python3.6/config/Makefile'',
                   ''/t/lib/python3.6/_sysconfigdata.pyc'',
                   ''/t/lib/python3.6/plat-linux/_sysconfigdata.py'',
                   ''/sysroot/usr/include'', ''/env/cross/bin/python3''}),
      path_isfile =
        (\<lambda>p. p \<in> {''/t/bin/python3'', ''/t/lib/python3.6/config/Makefile'',
                   ''/t/lib/python3.6/_sysconfigdata.pyc'',
                   ''/t/lib/python3.6/plat-linux/_sysconfigdata.py''}),
      path_isdir = (\<lambda>p. p = ''/sysroot/usr/include''),
      is_python_source_dir = (\<lambda>p. False),
      read_text =
        (\<lambda>p. if p = ''/t/lib/python3.6/config/Makefile''
              then Some (''CC=arm-linux-gcc'' @ [CHR 0x0A] @
                         ''_PYTHON_HOST_PLATFORM=linux-arm'' @ [CHR 0x0A])
              else if p = ''/env/cross/pyvenv.cfg''
              then Some (''home = /usr/bin'' @ [CHR 0x0A] @ ''version = 3.6.5'' @ [CHR 0x0A])
              else None),
      glob =
        (\<lambda>p. if p = ''/t/lib/python3.6/_sysconfigdata*.py*''
              then [''/t/lib/python3.6/_sysconfigdata.pyc'']
              else if p = ''/t/lib/python3.6/*/_sysconfigdata*.py*''
              then [''/t/lib/python3.6/plat-linux/_sysconfigdata.py'']
              else if p = ''/t/lib/python3.6/*/Makefile''
              then [''/t/lib/python3.6/config/Makefile'']
              else if p = ''/sysroot/usr/lib*'' then [''/sysroot/usr/lib'', ''/sysroot/usr/lib32'']
              else []),
      set_order = remdups,
      exec_module = (\<lambda>p. Inr target_vars),
      caches_bytecode = (\<lambda>p. True),
      cache_tag = ''cpython-36'',
      listdir =
        (\<lambda>p. if p = ''/env/cross/bin''
              then Inr [''activate'', ''activate.csh'', ''python'', ''python3'']
              else Inl PyFileNotFoundError),
      os_file = ''/usr/lib/python3.6/os.py'',
      random_sentinel = 7,
      shlex_split = (\<lambda>s. Inr [s]),
      check_output =
        (\<lambda>cmd. if cmd = [''arm-linux-gcc'', ''--version''] then Output ''gcc 7.3''
                else if cmd = [''arm-linux-gcc'', ''-print-sysroot'']
                then Output (''/sysroot'' @ [CHR 0x0A])
                else CannotExecute PyFileNotFoundError)\<rparr>"

definition installed_host :: host_info where
  "installed_host =
     \<lparr>host_project_base = ''/t/bin'',
      host_makefile = ''/t/lib/python3.6/config/Makefile'',
      host_home = ''/t'',
      host_sysconfig =
        \<lparr>host_sysconfigdata = target_vars,
         host_sysconfigdata_file = ''/t/lib/python3.6/_sysconfigdata.pyc'',
         host_sysconfigdata_name = ''_sysconfigdata''\<rparr>,
      host_cc = [''arm-linux-gcc''],
      host_version = ''3.6'',
      host_platform = ''linux-arm''\<rparr>"

text \<open>What loading the source file of the build configuration writes there.\<close>

definition installed_writes :: "string list" where
  "installed_writes =
     [''/t/lib/python3.6/plat-linux/__pycache__'',
      ''/t/lib/python3.6/plat-linux/__pycache__/_sysconfigdata.cpython-36.pyc'']"

definition default_args :: builder_args where
  "default_args =
     \<lparr>arg_host_python = ''/t/bin/python3'',
      arg_extra_env_vars = [(''FOO'', ''='', ''bar''), (''PATH'', '':='', ''/x'')],
      arg_build_system_site_packages = False,
      arg_clear = None,
      arg_cross_prefix = None,
      arg_with_cross_pip = False,
      arg_with_build_pip = False,
      arg_host_sysroot = None\<rparr>"

text \<open>The builder constructed for that target with those arguments, and the context of
  the environment directory \<open>/env\<close> when \<open>make_cross_python\<close> is called.\<close>

definition installed_builder :: builder where
  "installed_builder =
     \<lparr>host = installed_host,
      host_sysroot = Some ''/sysroot'',
      build_system_site_packages = False,
      extra_env_vars = [(''FOO'', ''='', ''bar''), (''PATH'', '':='', ''/x'')],
      clear_build = False,
      clear_cross = False,
      with_cross_pip = False,
      with_build_pip = False,
      cross_prefix = None\<rparr>"

definition env_context :: venv_context where
  "env_context =
     \<lparr>env_dir = ''/env'',
      python_exe = ''python3'',
      lib_path = ''/env/lib'',
      build_pip_reqs = [],
      cross_env_dir = [],
      cross_bin_path = [],
      cross_env_exe = [],
      cross_cfg_path = [],
      cross_activate = [],
      sentinel = 0\<rparr>"

text \<open>The same target when the sysroot that the compiler names has neither library
  directories nor an include directory.\<close>

definition empty_sysroot_target :: world where
  "empty_sysroot_target =
     installed_target
       \<lparr>path_isdir := (\<lambda>p. False),
        glob := (\<lambda>p. if p = ''/sysroot/usr/lib*'' then [] else glob installed_target p)\<rparr>"

text \<open>
  A target in its source tree \<open>/src\<close>, built for version 3.6, for a build interpreter of
  version 3.7: \<open>pybuilddir.txt\<close> names the directory of the build, which holds the build
  configuration.
\<close>

definition source_tree_target :: world where
  "source_tree_target =
     \<lparr>config_VERSION = ''3.7'',
      config_py_version_short = ''3.7'',
      sys_platform = ''linux'',
      platform_machine = ''x86_64'',
      abspath = (\<lambda>p. p),
      path_exists =
        (\<lambda>p. p \<in> {''/src/python'', ''/src/Makefile'', ''/src/pybuilddir.txt'',
                   ''/src/build/lib.linux-arm-3.6/_sysconfigdata_m.py''}),
      path_isfile =
        (\<lambda>p. p \<in> {''/src/python'', ''/src/Makefile'', ''/src/pybuilddir.txt'',
                   ''/src/build/lib.linux-arm-3.6/_sysconfigdata_m.py''}),
      path_isdir = (\<lambda>p. False),
      is_python_source_dir = (\<lambda>p. p = ''/src''),
      read_text =
        (\<lambda>p. if p = ''/src/pybuilddir.txt'' then Some (''build/lib.linux-arm-3.6'' @ [CHR 0x0A])
              else if p = ''/src/Makefile''
              then Some (''_PYTHON_HOST_PLATFORM=linux-arm'' @ [CHR 0x0A])
              else None),
      glob =
        (\<lambda>p. if p = ''/src/build/lib.linux-arm-3.6/_sysconfigdata*.py*''
              then [''/src/build/lib.linux-arm-3.6/_sysconfigdata_m.py'']
              else []),
      set_order = remdups,
      exec_module = (\<lambda>p. Inr target_vars),
      caches_bytecode = (\<lambda>p. True),
      cache_tag = ''cpython-37'',
      listdir = (\<lambda>p. Inl PyFileNotFoundError),
      os_file = ''/usr/lib/python3.7/os.py'',
      random_sentinel = 7,
      shlex_split = (\<lambda>s. Inr [s]),
      check_output = (\<lambda>cmd. Output [])\<rparr>"



text \<open>The installed target with a source file of build configuration that records another
  compiler than the compiled file.\<close>

definition conflicting_target :: world where
  "conflicting_target =
     installed_target
       \<lparr>exec_module :=
          (\<lambda>p. if p = ''/t/lib/python3.6/_sysconfigdata.pyc'' then Inr target_vars
                else Inr [(''CC'', ''gcc''), (''VERSION'', ''3.6'')])\<rparr>"

section \<open>Evaluation of the concrete environments\<close>

lemma discover_installed_target:
  "discover_host_python installed_target ''/t/bin/python3'' = (Inr installed_host, installed_writes)"
  by code_simp


lemma find_host_python_installed_target:
  "find_host_python installed_target ''/t/bin/python3'' = (Inr installed_host, installed_writes)"
  by code_simp

lemma find_compiler_info_installed_target:
  "find_compiler_info installed_target [''arm-linux-gcc''] None = Inr (Some ''/sysroot'')"
  by code_simp

lemma init_installed_target:
  "init installed_target default_args = (Inr installed_builder, installed_writes)"
  by code_simp

section \<open>Properties of \<open>parse_env_vars\<close>\<close>

lemma split1_no_sep: "sep \<notin> set s \<Longrightarrow> split1 sep s = [s]"
  by (simp add: split1_def)

lemma set_lstrip_subset: "set (lstrip s) \<subseteq> set s"
  by (simp add: lstrip_def set_dropWhileD subsetI)

lemma parse_env_var_no_equals:
  assumes "CHR ''='' \<notin> set s"
  shows "parse_env_var s = Inl (Uncaught PyValueError)"
proof -
  from assms have "CHR ''='' \<notin> set (lstrip s)"
    using set_lstrip_subset by blast
  then show ?thesis
    by (simp add: parse_env_var_def split1_no_sep)
qed

lemma unpack2_not_IndexError: "unpack2 xs \<noteq> Inl PyIndexError"
  by (cases xs rule: unpack2.cases) simp_all

lemma parse_env_var_not_form: "parse_env_var s \<noteq> Inl (InvalidInput MustBeNameValue)"
  using unpack2_not_IndexError [of "split1 CHR ''='' (lstrip s)"]
  by (auto simp: parse_env_var_def Let_def index_last_def split: sum.splits if_splits prod.splits)

lemma parse_env_vars_loop_not_form:
  "parse_env_vars_loop specs parsed \<noteq> Inl (InvalidInput MustBeNameValue)"
  by (induction specs arbitrary: parsed) (auto simp: parse_env_var_not_form split: sum.splits)

lemma parse_env_vars_loop_fails:
  "s \<in> set specs \<Longrightarrow> CHR ''='' \<notin> set s \<Longrightarrow> isl (parse_env_vars_loop specs parsed)"
  by (induction specs arbitrary: parsed) (auto simp: parse_env_var_no_equals split: sum.splits)

lemma last_slice: "name \<noteq> [] \<Longrightarrow> drop (length name - 1) name = [last name]"
  by (metis append_butlast_last_id append_eq_conv_conj length_butlast)

lemma str_in_single: "str_in [c] ''?+:'' \<longleftrightarrow> c \<in> {CHR ''?'', CHR ''+'', CHR '':''}"
  by auto

text \<open>
  For a string with \<open>=\<close> and a character before it, once stripped on the left, the body of
  \<open>parse_env_vars\<close> raises nothing but the \<open>ValueError\<close> for an invalid name, and raises it
  exactly when the name, without a last character among \<open>?+:\<close>, is not an identifier;
  otherwise the rule has that name, the operator of that character or \<open>=\<close>, and the value
  after the first \<open>=\<close>.
\<close>

theorem parse_env_var_named:
  assumes "CHR ''='' \<in> set (lstrip s)"
    and "takeWhile (\<lambda>c. c \<noteq> CHR ''='') (lstrip s) \<noteq> []"
  shows "parse_env_var s =
     (let name = takeWhile (\<lambda>c. c \<noteq> CHR ''='') (lstrip s);
          val = tl (dropWhile (\<lambda>c. c \<noteq> CHR ''='') (lstrip s));
          op = last name \<in> {CHR ''?'', CHR ''+'', CHR '':''};
          name' = (if op then butlast name else name)
      in if isidentifier name'
         then Inr (name', (if op then [last name] @ ''='' else ''=''), val)
         else Inl (InvalidInput InvalidVariableName))"
proof -
  let ?name = "takeWhile (\<lambda>c. c \<noteq> CHR ''='') (lstrip s)"
  have sl: "drop (length ?name - Suc 0) ?name = [last ?name]"
    using last_slice [OF assms(2)] by simp
  show ?thesis
    using assms
    by (simp add: parse_env_var_def split1_def sl str_in_single index_last_def Let_def
        del: str_in.simps)
qed

theorem parse_env_var_named_witness:
  "CHR ''='' \<in> set (lstrip ''  PATH:=/x=y'') \<and>
   takeWhile (\<lambda>c. c \<noteq> CHR ''='') (lstrip ''  PATH:=/x=y'') = ''PATH:'' \<and>
   parse_env_var ''  PATH:=/x=y'' = Inr (''PATH'', '':='', ''/x=y'') \<and>
   parse_env_var ''A B=c'' = Inl (InvalidInput InvalidVariableName)"
proof -
  have 1: "CHR ''='' \<in> set (lstrip ''  PATH:=/x=y'')"
    by code_simp
  have 2: "takeWhile (\<lambda>c. c \<noteq> CHR ''='') (lstrip ''  PATH:=/x=y'') \<noteq> []"
    by code_simp
  have 3: "CHR ''='' \<in> set (lstrip ''A B=c'')"
    by code_simp
  have 4: "takeWhile (\<lambda>c. c \<noteq> CHR ''='') (lstrip ''A B=c'') \<noteq> []"
    by code_simp
  have 5: "lstrip ''  PATH:=/x=y'' = ''PATH:=/x=y''" and 6: "lstrip ''A B=c'' = ''A B=c''"
    by code_simp+
  from parse_env_var_named [OF 1 2] parse_env_var_named [OF 3 4]
  show ?thesis
    by (simp add: 5 6 Let_def is_id_start_def is_id_continue_def is_ascii_upper_def
        is_ascii_lower_def is_ascii_digit_def)
qed

text \<open>
  Claim C7. \<open>parse_env_vars\<close> maps \<open>"FOO=bar"\<close> to \<open>("FOO", "=", "bar")\<close>, \<open>"FOO?=bar"\<close> to
  \<open>("FOO", "?=", "bar")\<close> and \<open>"FOO:=a:b"\<close> to \<open>("FOO", ":=", "a:b")\<close>, and raises the
  \<open>ValueError\<close> for an invalid variable name on \<open>"1FOO=bar"\<close>. On \<open>"=bar"\<close>, whose
  variable name is the empty string and no identifier, it does not: the empty string is
  in \<open>'?+:'\<close>, and \<open>name[-1]\<close> raises \<open>IndexError\<close>.
\<close>

theorem parse_env_vars_empty_name_IndexError:
  "parse_env_vars [''FOO=bar''] = Inr [(''FOO'', ''='', ''bar'')] \<and>
   parse_env_vars [''FOO?=bar''] = Inr [(''FOO'', ''?='', ''bar'')] \<and>
   parse_env_vars [''FOO:=a:b''] = Inr [(''FOO'', '':='', ''a:b'')] \<and>
   parse_env_vars [''1FOO=bar''] = Inl (InvalidInput InvalidVariableName) \<and>
   \<not> isidentifier [] \<and>
   parse_env_vars [''=bar''] = Inl (Uncaught PyIndexError)"
  by code_simp

text \<open>
  Claim C10. For every string without \<open>=\<close>, \<open>parse_env_vars\<close> raises an exception: the
  \<open>ValueError\<close> of the unpacking, for the string alone, and some exception for every list
  that holds the string. The unpacking of the split never raises \<open>IndexError\<close>, the one
  class the handler catches, so no input makes \<open>parse_env_vars\<close> raise the \<open>ValueError\<close>
  of the handler ("Must be in the form NAME=VALUE").
\<close>

theorem parse_env_vars_no_equals:
  "(CHR ''='' \<notin> set s \<longrightarrow>
      parse_env_vars [s] = Inl (Uncaught PyValueError) \<and>
      (s \<in> set env_vars \<longrightarrow> isl (parse_env_vars env_vars))) \<and>
   unpack2 (split1 CHR ''='' (lstrip s)) \<noteq> Inl PyIndexError \<and>
   parse_env_vars env_vars \<noteq> Inl (InvalidInput MustBeNameValue)"
  by (simp add: parse_env_vars_def parse_env_var_no_equals parse_env_vars_loop_not_form
      parse_env_vars_loop_fails unpack2_not_IndexError)

theorem parse_env_vars_no_equals_witness:
  "CHR ''='' \<notin> set ''FOO'' \<and>
   parse_env_vars [''FOO''] = Inl (Uncaught PyValueError) \<and>
   ''FOO'' \<in> set [''A=b'', ''FOO''] \<and>
   isl (parse_env_vars [''A=b'', ''FOO'']) \<and>
   parse_env_vars [''A=b'', ''FOO''] \<noteq> Inl (InvalidInput MustBeNameValue)"
  using parse_env_vars_no_equals [of "''FOO''" "[''A=b'', ''FOO'']"] by simp

section \<open>Properties of target discovery and of the constructor\<close>

lemma dict_eq_iff: "dict_eq a b \<longleftrightarrow> map_of a = map_of b"
proof
  assume h: "dict_eq a b"
  show "map_of a = map_of b"
  proof
    fix k
    show "map_of a k = map_of b k"
    proof (cases "k \<in> set (map fst a @ map fst b)")
      case True
      with h show ?thesis
        by (simp add: dict_eq_def list_all_iff)
    next
      case False
      then have "map_of a k = None" and "map_of b k = None"
        by (simp_all add: map_of_eq_None_iff)
      then show ?thesis
        by simp
    qed
  qed
next
  assume "map_of a = map_of b"
  then show "dict_eq a b"
    by (simp add: dict_eq_def list_all_iff)
qed

lemma load_candidates_Some:
  assumes "list_all (\<lambda>p. \<not> isl (exec_module w p)) paths"
  shows "fst (load_candidates w paths (Some c)) =
           (if list_all (\<lambda>p. dict_eq (host_sysconfigdata c) (projr (exec_module w p))) paths
            then Inr (Some c) else Inl CorruptInstallation)"
  using assms
proof (induction paths)
  case Nil
  then show ?case
    by simp
next
  case (Cons p paths)
  then obtain vars where "exec_module w p = Inr vars"
    by (cases "exec_module w p") auto
  with Cons show ?case
    by (simp add: Let_def)
qed

lemma load_candidates_conflict:
  assumes loads: "list_all (\<lambda>p. \<not> isl (exec_module w p)) paths"
    and p: "p \<in> set paths" and q: "q \<in> set paths"
    and differ: "\<not> dict_eq (projr (exec_module w p)) (projr (exec_module w q))"
  shows "fst (load_candidates w paths None) = Inl CorruptInstallation"
proof (cases paths)
  case Nil
  with p show ?thesis
    by simp
next
  case (Cons x rest)
  from loads Cons obtain vars where x: "exec_module w x = Inr vars"
    by (cases "exec_module w x") auto
  from loads Cons have rest: "list_all (\<lambda>p. \<not> isl (exec_module w p)) rest"
    by simp
  have "\<not> list_all (\<lambda>r. dict_eq vars (projr (exec_module w r))) rest"
  proof
    assume all: "list_all (\<lambda>r. dict_eq vars (projr (exec_module w r))) rest"
    have "map_of (projr (exec_module w r)) = map_of vars" if "r \<in> set paths" for r
    proof (cases "r = x")
      case True
      with x show ?thesis
        by simp
    next
      case False
      with that Cons have "r \<in> set rest"
        by simp
      with all show ?thesis
        by (simp add: list_all_iff dict_eq_iff)
    qed
    from this [OF p] this [OF q] differ show False
      by (simp add: dict_eq_iff)
  qed
  with x Cons show ?thesis
    by (simp add: load_candidates_Some [OF rest])
qed

lemma fst_find_sysconfig_data:
  "fst (find_sysconfig_data w paths) =
     (case fst (load_candidates w
                  (sort_key sort_len
                     (set_order w (filter (is_candidate w)
                        (concat (map (\<lambda>path. glob w (path_join path [''_sysconfigdata*.py*'']))
                                   paths)))))
                  None) of
        Inl e \<Rightarrow> Inl e
      | Inr None \<Rightarrow> Inl ConfigNotFound
      | Inr (Some c) \<Rightarrow> Inr c)"
  by (simp add: find_sysconfig_data_def split: prod.splits sum.splits option.splits)





text \<open>
  When the module of every candidate loads and two candidates of the set record different
  build-time variables, \<open>find_sysconfig_data\<close> raises the \<open>ValueError\<close> for a malformed
  installation, in whichever order the set is iterated.
\<close>

theorem find_sysconfig_data_conflict:
  assumes "list_all (\<lambda>p. \<not> isl (exec_module w p))
             (set_order w (filter (is_candidate w)
                (concat (map (\<lambda>path. glob w (path_join path [''_sysconfigdata*.py*''])) paths))))"
    and "p \<in> set (set_order w (filter (is_candidate w)
                (concat (map (\<lambda>path. glob w (path_join path [''_sysconfigdata*.py*''])) paths))))"
    and "q \<in> set (set_order w (filter (is_candidate w)
                (concat (map (\<lambda>path. glob w (path_join path [''_sysconfigdata*.py*''])) paths))))"
    and "\<not> dict_eq (projr (exec_module w p)) (projr (exec_module w q))"
  shows "fst (find_sysconfig_data w paths) = Inl CorruptInstallation"
proof -
  let ?cands = "set_order w (filter (is_candidate w)
                (concat (map (\<lambda>path. glob w (path_join path [''_sysconfigdata*.py*''])) paths)))"
  have "fst (load_candidates w (sort_key sort_len ?cands) None) = Inl CorruptInstallation"
  proof (rule load_candidates_conflict [where p = p and q = q])
    show "list_all (\<lambda>p. \<not> isl (exec_module w p)) (sort_key sort_len ?cands)"
      using assms(1) by (simp add: list_all_iff)
  qed (use assms in simp_all)
  then show ?thesis
    by (simp add: fst_find_sysconfig_data)
qed

theorem find_sysconfig_data_conflict_witness:
  "fst (find_sysconfig_data conflicting_target [''/t/lib/python3.6'', ''/t/lib/python3.6/*'']) =
     Inl CorruptInstallation"
proof (rule find_sysconfig_data_conflict
    [where p = "''/t/lib/python3.6/_sysconfigdata.pyc''"
       and q = "''/t/lib/python3.6/plat-linux/_sysconfigdata.py''"])
qed code_simp+

text \<open>
  Claim C1. When the candidates record the same build-time variables, discovery selects
  the one whose secondary extension, what follows the first dot of the file name, is
  shortest. The environment \<open>installed_target\<close> has two candidates with the same
  variables, \<open>_sysconfigdata.pyc\<close> in the library directory \<open>/t/lib/python3.6\<close> and
  \<open>_sysconfigdata.py\<close> in \<open>plat-linux\<close> below it. The sort key is taken after the first dot
  of the whole path, the one of \<open>python3.6\<close>: it is 20 for the \<open>.pyc\<close> and 30 for the
  \<open>.py\<close>, and discovery selects the \<open>.pyc\<close>, in whichever order the set is iterated. Both
  files are loaded, and the loading of the \<open>.py\<close> writes its byte-code cache.
\<close>

theorem find_sysconfig_data_selects_pyc_over_py:
  "find_sysconfig_data installed_target [''/t/lib/python3.6'', ''/t/lib/python3.6/*''] =
     (Inr \<lparr>host_sysconfigdata = target_vars,
            host_sysconfigdata_file = ''/t/lib/python3.6/_sysconfigdata.pyc'',
            host_sysconfigdata_name = ''_sysconfigdata''\<rparr>,
      installed_writes) \<and>
   find_sysconfig_data (installed_target\<lparr>set_order := rev \<circ> remdups\<rparr>)
       [''/t/lib/python3.6'', ''/t/lib/python3.6/*''] =
     (Inr \<lparr>host_sysconfigdata = target_vars,
            host_sysconfigdata_file = ''/t/lib/python3.6/_sysconfigdata.pyc'',
            host_sysconfigdata_name = ''_sysconfigdata''\<rparr>,
      installed_writes) \<and>
   is_candidate installed_target ''/t/lib/python3.6/plat-linux/_sysconfigdata.py'' \<and>
   sort_len (basename ''/t/lib/python3.6/plat-linux/_sysconfigdata.py'') = 2 \<and>
   sort_len (basename ''/t/lib/python3.6/_sysconfigdata.pyc'') = 3 \<and>
   sort_len ''/t/lib/python3.6/plat-linux/_sysconfigdata.py'' = 30 \<and>
   sort_len ''/t/lib/python3.6/_sysconfigdata.pyc'' = 20"
  by code_simp




text \<open>
  Claim C3, as amended. For every builder constructed with \<open>with_cross_pip=True\<close> and
  \<open>with_build_pip=False\<close>, the construction fails. Target discovery and the compiler probe
  run before the flags are checked: the construction fails with the exception of target
  discovery if there is one, else with the exception of the compiler probe if there is
  one, and else with \<open>InvalidInput\<close>, in each case after the accesses of target discovery
  to the file system, with what its loader wrote there.
\<close>

theorem cross_pip_without_build_pip_fails:
  assumes "arg_with_cross_pip a" and "\<not> arg_with_build_pip a"
  shows "init w a =
           (case find_host_python w (arg_host_python a) of
              (Inl e, written) \<Rightarrow> (Inl e, written)
            | (Inr h, written) \<Rightarrow>
                (case find_compiler_info w (host_cc h) (arg_host_sysroot a) of
                   Inl e \<Rightarrow> Inl e
                 | Inr sysroot \<Rightarrow> Inl (InvalidInput CrossPipWithoutBuildPip),
                 written)) \<and>
         isl (fst (init w a))"
  using assms by (auto simp: init_def split: sum.splits prod.splits)

theorem cross_pip_without_build_pip_fails_witness:
  "arg_with_cross_pip (default_args\<lparr>arg_with_cross_pip := True\<rparr>) \<and>
   \<not> arg_with_build_pip (default_args\<lparr>arg_with_cross_pip := True\<rparr>) \<and>
   init installed_target (default_args\<lparr>arg_with_cross_pip := True\<rparr>) =
     (Inl (InvalidInput CrossPipWithoutBuildPip), installed_writes)"
proof -
  have c: "arg_with_cross_pip (default_args\<lparr>arg_with_cross_pip := True\<rparr>)"
    by simp
  have b: "\<not> arg_with_build_pip (default_args\<lparr>arg_with_cross_pip := True\<rparr>)"
    by (simp add: default_args_def)
  have h: "arg_host_python (default_args\<lparr>arg_with_cross_pip := True\<rparr>) = ''/t/bin/python3''"
    by (simp add: default_args_def)
  have s: "arg_host_sysroot (default_args\<lparr>arg_with_cross_pip := True\<rparr>) = None"
    by (simp add: default_args_def)
  have cc: "host_cc installed_host = [''arm-linux-gcc'']"
    by (simp add: installed_host_def)
  from cross_pip_without_build_pip_fails [OF c b, of installed_target]
  show ?thesis
    by (simp add: h s cc c b find_host_python_installed_target
        find_compiler_info_installed_target)
qed

text \<open>
  Claim C3 as stated fails: with the two flags so set, the construction fails with
  \<open>InvalidInput\<close> for the target \<open>installed_target\<close>, once the loading of its build
  configuration has written a byte-code cache; it fails with \<open>NotFound\<close> when the file
  system has no interpreter at the path, and with \<open>ToolchainUnavailable\<close> when the compiler
  exits with an error. The file system is read, and the compiler run, before the flags
  are checked.
\<close>

theorem cross_pip_without_build_pip_counterexample:
  "init installed_target (default_args\<lparr>arg_with_cross_pip := True\<rparr>) =
     (Inl (InvalidInput CrossPipWithoutBuildPip),
      [''/t/lib/python3.6/plat-linux/__pycache__'',
       ''/t/lib/python3.6/plat-linux/__pycache__/_sysconfigdata.cpython-36.pyc'']) \<and>
   init (installed_target\<lparr>path_exists := (\<lambda>p. False)\<rparr>)
     (default_args\<lparr>arg_with_cross_pip := True\<rparr>) = (Inl NotFound, []) \<and>
   fst (init (installed_target\<lparr>path_exists := (\<lambda>p. False)\<rparr>)
          (default_args\<lparr>arg_with_cross_pip := True\<rparr>)) \<noteq>
     Inl (InvalidInput CrossPipWithoutBuildPip) \<and>
   fst (init (installed_target\<lparr>check_output := (\<lambda>cmd. NonZeroExit)\<rparr>)
          (default_args\<lparr>arg_with_cross_pip := True\<rparr>)) = Inl ToolchainUnavailable"
  by code_simp

text \<open>
  Claim C5. For a target in a source tree whose \<open>pybuilddir.txt\<close> cannot be read, target
  discovery fails with \<open>BuildIncomplete\<close>. In the environment \<open>source_tree_target\<close> without
  that file, the handler of the \<open>IOError\<close> formats its message with the name \<open>s\<close>, which is
  bound nowhere: discovery, and the construction of the builder, end with \<open>NameError\<close>.
\<close>

theorem missing_pybuilddir_raises_NameError:
  "find_host_python
     (source_tree_target\<lparr>read_text := (\<lambda>p. if p = ''/src/pybuilddir.txt'' then None
                                             else read_text source_tree_target p)\<rparr>)
     ''/src/python'' = (Inl (Uncaught PyNameError), []) \<and>
   init
     (source_tree_target\<lparr>read_text := (\<lambda>p. if p = ''/src/pybuilddir.txt'' then None
                                             else read_text source_tree_target p)\<rparr>)
     (default_args\<lparr>arg_host_python := ''/src/python''\<rparr>) = (Inl (Uncaught PyNameError), []) \<and>
   ''s'' \<notin> set module_globals \<and>
   exception_class (Uncaught PyNameError) \<noteq> exception_class BuildIncomplete"
  by code_simp

text \<open>
  When the version query of the compiler exits with an error, the compiler probe raises
  the \<open>RuntimeError\<close> that the cross-compiler cannot be run, whatever the sysroot given.
\<close>

theorem find_compiler_info_nonzero_exit:
  assumes "check_output w (cc @ [''--version'']) = NonZeroExit"
  shows "find_compiler_info w cc sysroot = Inl ToolchainUnavailable"
  using assms by (simp add: find_compiler_info_def run_compiler_def)

theorem find_compiler_info_nonzero_exit_witness:
  "check_output (installed_target\<lparr>check_output := (\<lambda>cmd. NonZeroExit)\<rparr>)
     ([''arm-linux-gcc''] @ [''--version'']) = NonZeroExit \<and>
   find_compiler_info (installed_target\<lparr>check_output := (\<lambda>cmd. NonZeroExit)\<rparr>)
     [''arm-linux-gcc''] (Some ''/sysroot'') = Inl ToolchainUnavailable"
  using find_compiler_info_nonzero_exit
    [of "installed_target\<lparr>check_output := (\<lambda>cmd. NonZeroExit)\<rparr>" "[''arm-linux-gcc'']"
        "Some ''/sysroot''"]
  by simp

text \<open>
  Claim C6. The compiler probe fails with \<open>ToolchainUnavailable\<close> both when the compiler
  exits with an error and when its binary cannot be found. When the version query exits
  with an error, it does; when the binary cannot be started, the \<open>FileNotFoundError\<close> of
  \<open>subprocess.check_output\<close> is not caught by \<open>run_compiler\<close> and ends the probe and the
  construction of the builder.
\<close>

theorem missing_compiler_raises_FileNotFoundError:
  "find_compiler_info
     (installed_target\<lparr>check_output := (\<lambda>cmd. CannotExecute PyFileNotFoundError)\<rparr>)
     [''arm-linux-gcc''] None = Inl (Uncaught PyFileNotFoundError) \<and>
   init (installed_target\<lparr>check_output := (\<lambda>cmd. CannotExecute PyFileNotFoundError)\<rparr>)
     default_args = (Inl (Uncaught PyFileNotFoundError), installed_writes) \<and>
   find_compiler_info (installed_target\<lparr>check_output := (\<lambda>cmd. NonZeroExit)\<rparr>)
     [''arm-linux-gcc''] None = Inl ToolchainUnavailable \<and>
   exception_class (Uncaught PyFileNotFoundError) \<noteq> exception_class ToolchainUnavailable"
  by code_simp

section \<open>Properties of the assembly of the environment\<close>

lemma perform_None:
  "perform call_error steps = (None, cs) \<Longrightarrow> cs = calls steps \<and> list_all is_call steps"
proof (induction steps arbitrary: cs)
  case Nil
  then show ?case
    by simp
next
  case (Cons st steps)
  show ?case
  proof (cases st)
    case (Do c)
    with Cons.prems obtain later where
      "call_error c = None" and "perform call_error steps = (None, later)" and "cs = c # later"
      by (cases "call_error c"; cases "perform call_error steps") auto
    with Cons.IH [of later] Do show ?thesis
      by simp
  next
    case (Raise e)
    with Cons.prems show ?thesis
      by simp
  qed
qed

lemma calls_append: "calls (xs @ ys) = calls xs @ calls ys"
  by (induction xs rule: calls.induct) simp_all

lemma calls_map_Do: "calls (map (\<lambda>x. Do (f x)) xs) = map f xs"
  by (induction xs) simp_all

lemma launchers_append: "launchers (xs @ ys) = launchers xs @ launchers ys"
  by (induction xs rule: launchers.induct) simp_all

lemma launchers_map_RemovePath: "launchers (map (\<lambda>x. RemovePath (f x)) xs) = []"
  by (induction xs) simp_all

lemma launchers_map_Symlink: "launchers (map (\<lambda>x. Symlink (f x) (g x)) xs) = []"
  by (induction xs) simp_all

lemma make_cross_python_extra_envs_eq:
  "make_cross_python_extra_envs w b =
     extra_env_vars b @
     (case host_sysroot b of
        None \<Rightarrow> []
      | Some sysroot \<Rightarrow>
          (if sysroot = [] then []
           else (if glob w (path_join sysroot [''usr'', ''lib*'']) = [] then []
                 else [(''LIBRARY_PATH'', '':='',
                        join_with '':'' (glob w (path_join sysroot [''usr'', ''lib*''])))]) @
                (if path_isdir w (path_join sysroot [''usr'', ''include''])
                 then [(''CPATH'', '':='', path_join sysroot [''usr'', ''include''])]
                 else [])))"
  by (simp add: make_cross_python_extra_envs_def Let_def split: option.splits)

lemma launchers_make_cross_python_steps:
  assumes "list_all is_call (make_cross_python_steps w b ctx)"
  shows "map (\<lambda>(destination, locals). (destination, extra_envs locals))
           (launchers (calls (make_cross_python_steps w b ctx))) =
         [(cross_env_exe (cross_context w b ctx), make_cross_python_extra_envs w b)]"
proof (cases "listdir w (cross_bin_path (cross_context w b ctx))")
  case (Inl e)
  with assms show ?thesis
    by (simp add: make_cross_python_steps_def Let_def)
next
  case (Inr exes)
  show ?thesis
  proof (cases "read_text w (cross_cfg_path (cross_context w b ctx))")
    case None
    with assms Inr show ?thesis
      by (simp add: make_cross_python_steps_def Let_def)
  next
    case (Some content)
    with Inr show ?thesis
      by (simp add: make_cross_python_steps_def Let_def calls_append calls_map_Do
          launchers_append launchers_map_RemovePath launchers_map_Symlink)
  qed
qed

text \<open>
  Claim C4, as amended. Whenever \<open>make_cross_python\<close> returns, it has rendered the template
  of the launcher once, at the path of the interpreter of the cross environment; the rule
  list among the local variables handed to the template starts with the rules of the user,
  each once and in the order of their declaration; what follows them is the rule for
  \<open>LIBRARY_PATH\<close>, when the sysroot is set and has library directories, and then the rule
  for \<open>CPATH\<close>, when the sysroot is set and has an include directory.
\<close>

theorem make_cross_python_launcher_rules:
  assumes "make_cross_python w call_error b ctx = (None, cs)"
  shows "map (\<lambda>(destination, locals). (destination, extra_envs locals)) (launchers cs) =
           [(cross_env_exe (cross_context w b ctx),
             extra_env_vars b @
             (case host_sysroot b of
                None \<Rightarrow> []
              | Some sysroot \<Rightarrow>
                  (if sysroot = [] then []
                   else (if glob w (path_join sysroot [''usr'', ''lib*'']) = [] then []
                         else [(''LIBRARY_PATH'', '':='',
                                join_with '':''
                                  (glob w (path_join sysroot [''usr'', ''lib*''])))]) @
                        (if path_isdir w (path_join sysroot [''usr'', ''include''])
                         then [(''CPATH'', '':='', path_join sysroot [''usr'', ''include''])]
                         else []))))]"
proof -
  from assms have "cs = calls (make_cross_python_steps w b ctx)"
    and "list_all is_call (make_cross_python_steps w b ctx)"
    using perform_None [of call_error "make_cross_python_steps w b ctx" cs]
    by (simp_all add: make_cross_python_def)
  then show ?thesis
    using launchers_make_cross_python_steps [of w b ctx]
    by (simp add: make_cross_python_extra_envs_eq)
qed

theorem make_cross_python_launcher_rules_witness:
  "fst (make_cross_python installed_target (\<lambda>c. None) installed_builder env_context) = None \<and>
   map (\<lambda>(destination, locals). (destination, extra_envs locals))
     (launchers (snd (make_cross_python installed_target (\<lambda>c. None) installed_builder
                        env_context))) =
     [(''/env/cross/bin/python3'',
       [(''FOO'', ''='', ''bar''), (''PATH'', '':='', ''/x''),
        (''LIBRARY_PATH'', '':='', ''/sysroot/usr/lib:/sysroot/usr/lib32''),
        (''CPATH'', '':='', ''/sysroot/usr/include'')])]"
proof -
  let ?r = "make_cross_python installed_target (\<lambda>c. None) installed_builder env_context"
  have ok: "fst ?r = None"
    by code_simp
  then have r: "?r = (None, snd ?r)"
    by (metis prod.collapse)
  have e: "[(cross_env_exe (cross_context installed_target installed_builder env_context),
             extra_env_vars installed_builder @
             (case host_sysroot installed_builder of
                None \<Rightarrow> []
              | Some sysroot \<Rightarrow>
                  (if sysroot = [] then []
                   else (if glob installed_target (path_join sysroot [''usr'', ''lib*'']) = []
                         then []
                         else [(''LIBRARY_PATH'', '':='',
                                join_with '':''
                                  (glob installed_target
                                     (path_join sysroot [''usr'', ''lib*''])))]) @
                        (if path_isdir installed_target (path_join sysroot [''usr'', ''include''])
                         then [(''CPATH'', '':='', path_join sysroot [''usr'', ''include''])]
                         else []))))] =
           [(''/env/cross/bin/python3'',
             [(''FOO'', ''='', ''bar''), (''PATH'', '':='', ''/x''),
              (''LIBRARY_PATH'', '':='', ''/sysroot/usr/lib:/sysroot/usr/lib32''),
              (''CPATH'', '':='', ''/sysroot/usr/include'')])]"
    by code_simp
  from make_cross_python_launcher_rules [OF r] ok show ?thesis
    unfolding e by simp
qed

text \<open>
  Claim C4 as stated fails: for the target \<open>empty_sysroot_target\<close>, whose sysroot is
  resolved to \<open>/sysroot\<close> by the compiler and has neither library directories nor an
  include directory, the list handed to the launcher holds the rules of the user and no
  rule for \<open>LIBRARY_PATH\<close> or \<open>CPATH\<close>.
\<close>

theorem make_cross_python_launcher_rules_counterexample:
  "init empty_sysroot_target default_args = (Inr installed_builder, installed_writes) \<and>
   host_sysroot installed_builder = Some ''/sysroot'' \<and>
   fst (make_cross_python empty_sysroot_target (\<lambda>c. None) installed_builder env_context) =
     None \<and>
   map (\<lambda>(destination, locals). (destination, extra_envs locals))
     (launchers (snd (make_cross_python empty_sysroot_target (\<lambda>c. None) installed_builder
                        env_context))) =
     [(''/env/cross/bin/python3'', [(''FOO'', ''='', ''bar''), (''PATH'', '':='', ''/x'')])]"
  by code_simp

text \<open>
  Claim C8. The descriptor \<open>crossenv.cfg\<close> records a system name and a machine derived from
  the platform tag of the target. For the target \<open>installed_target\<close>, whose tag is
  \<open>linux-arm\<close>, on a build machine whose \<open>sys.platform\<close> is \<open>linux\<close>, the descriptor records
  the system name \<open>L\<close> and the machine \<open>x\<close>: the first and the last character of
  \<open>sys.platform\<close>. The tag is split, and only the number of its parts is used.
\<close>

theorem uname_section_from_sys_platform:
  "map_sum id (\<lambda>b. (host_platform (host b), uname_section installed_target b,
                     create_configuration installed_target b (Some (Dir []))))
     (fst (init installed_target default_args)) =
   Inr (''linux-arm'',
        Inr [(''sysname'', ''L''), (''nodename'', ''build''), (''release'', []),
             (''version'', []), (''machine'', ''x'')],
        None,
        Some (Dir [(''crossenv.cfg'',
                    File (''[uname]'' @ [CHR 0x0A] @ ''sysname = L'' @ [CHR 0x0A] @
                          ''nodename = build'' @ [CHR 0x0A] @ ''release = '' @ [CHR 0x0A] @
                          ''version = '' @ [CHR 0x0A] @ ''machine = x'' @ [CHR 0x0A] @
                          [CHR 0x0A]))]))"
  by code_simp

lemma clear_entries_filter:
  "clear_entries subs entries =
     filter (\<lambda>(n, _). n \<in> {''cross'', ''build''} \<or> n \<notin> set subs) entries"
proof (induction subs arbitrary: entries)
  case Nil
  then show ?case by simp
next
  case (Cons sub subs)
  show ?case
  proof (cases "sub \<in> {''cross'', ''build''}")
    case True
    then show ?thesis
      using Cons.IH [of entries] by (auto intro!: filter_cong)
  next
    case False
    then show ?thesis
      using Cons.IH [of "remove_path sub entries"]
      by (auto simp: remove_path_def intro!: filter_cong)
  qed
qed

lemma clear_entries_listdir:
  "clear_entries (map fst entries) entries =
     filter (\<lambda>(n, _). n \<in> {''cross'', ''build''}) entries"
  unfolding clear_entries_filter by (rule filter_cong) force+

text \<open>
  Claim C9. For an existing environment directory, when clearing is requested for at
  least one of the two environments, \<open>ensure_directories\<close> removes every entry but those
  named \<open>cross\<close> and \<open>build\<close>, which stay as they are; when it is requested for neither, no
  entry is removed. That directory is what it hands to the \<open>ensure_directories\<close> of the
  \<open>venv\<close> module, and it returns what that leaves, with the directory \<open>lib\<close> made if
  needed.
\<close>

theorem ensure_directories_clears_all_but_cross_and_build:
  "clear_env_dir b (Some (Dir entries)) =
     Inr (Some (Dir (if clear_cross b \<or> clear_build b
                     then filter (\<lambda>(n, _). n \<in> {''cross'', ''build''}) entries
                     else entries))) \<and>
   ensure_directories sv b (Some (Dir entries)) =
     (case venv_ensure_directories sv
             (Some (Dir (if clear_cross b \<or> clear_build b
                         then filter (\<lambda>(n, _). n \<in> {''cross'', ''build''}) entries
                         else entries))) of
        (Some e, n) \<Rightarrow> (Some e, n)
      | (None, Some (Dir created)) \<Rightarrow> (None, Some (Dir (mkdir_if_needed ''lib'' created)))
      | (None, n) \<Rightarrow> (Some (Uncaught PyOSError), n))"
  by (simp add: clear_env_dir_def ensure_directories_def clear_entries_listdir)

end
